theory Spec2Isabelle
  imports Main
begin

section \<open>The page as the script sees it\<close>

text \<open>
  The script \<^verbatim>\<open>src/assets/app_js.js\<close> is sixteen lines: one registration call and one
  function of four \<^verbatim>\<open>if\<close> statements. Everything it touches belongs to the host (the
  browser's DOM), so the host is modelled here as far as the script uses it.

  An element carries its \<^verbatim>\<open>id\<close> attribute, the identity of its node and its kind.
  The document is the list of its elements in tree order; identifiers may repeat, and
  \<^verbatim>\<open>getElementById\<close> returns the first match or \<^verbatim>\<open>null\<close>, whatever the kind of the
  element. Only an HTML element has a \<^verbatim>\<open>click\<close> method; an SVG or MathML element in
  the same document has none.
\<close>

datatype element_kind = HTMLElement | SVGElement | MathMLElement

record element =
  elem_id :: string
  node :: nat
  kind :: element_kind

type_synonym document = "element list"

text \<open>
  The event object the host hands to a listener. The script reads \<^verbatim>\<open>event.key\<close> only,
  a string for every keyboard event, so \<^verbatim>\<open>==\<close> is string equality. The other fields are
  those of a keyboard event that the script never reads.
\<close>

record dom_event =
  ev_type :: string
  key :: string
  ctrlKey :: bool
  shiftKey :: bool
  altKey :: bool
  metaKey :: bool
  repeat :: bool

text \<open>
  Reading a property of \<^verbatim>\<open>null\<close> and calling a method that an object does not have both
  throw a \<^verbatim>\<open>TypeError\<close>, the only error of the script.
\<close>

datatype js_error = TypeError

text \<open>The script declares one function, the only callback it ever registers.\<close>

datatype callback = ClickButtonFunction

text \<open>
  The operations a run of the handler performs on the host, logged in the order in which
  they happen: a comparison of \<^verbatim>\<open>event.key\<close> with a literal, a call of
  \<^verbatim>\<open>getElementById\<close>, a call of \<^verbatim>\<open>click\<close> on an element. The log is the
  model's account of what was done; no program can read or change it.
\<close>

datatype op = KeyCompared string | Lookup string | Click element

text \<open>
  What runs when an element is activated is attached elsewhere on the page; it may change
  the document. It is a parameter of the model: the document after the activation of an
  element, as a total function (the attached behaviour is assumed to return).
\<close>

type_synonym behaviour = "element \<Rightarrow> document \<Rightarrow> document"

text \<open>
  The page: its document, the listeners registered on the document (event type and
  callback, in registration order), the log, and the exceptions the host has reported.
  The script declares no variable, so the page has no field for any.
\<close>

record page =
  document :: document
  listeners :: "(string \<times> callback) list"
  trace :: "op list"
  reported :: "js_error list"

type_synonym 'a js = "page \<Rightarrow> (js_error + 'a) \<times> page"

section \<open>Host operations\<close>

text \<open>\<^verbatim>\<open>event.key == s\<close>\<close>

definition key_equals :: "dom_event \<Rightarrow> string \<Rightarrow> page \<Rightarrow> bool \<times> page" where
  "key_equals e s p = (key e = s, p\<lparr>trace := trace p @ [KeyCompared s]\<rparr>)"

text \<open>\<^verbatim>\<open>document.getElementById(i)\<close>: \<open>None\<close> is \<^verbatim>\<open>null\<close>.\<close>

definition getElementById :: "string \<Rightarrow> page \<Rightarrow> element option \<times> page" where
  "getElementById i p =
     (find (\<lambda>x. elem_id x = i) (document p), p\<lparr>trace := trace p @ [Lookup i]\<rparr>)"

text \<open>
  \<^verbatim>\<open>r.click()\<close> on the result \<open>r\<close> of a lookup: on \<^verbatim>\<open>null\<close> the property access throws;
  on an element that is not an HTML element \<^verbatim>\<open>r.click\<close> is \<^verbatim>\<open>undefined\<close> and the call
  throws; on an HTML element the host activates it, and what is attached to it runs.
\<close>

definition click :: "behaviour \<Rightarrow> element option \<Rightarrow> unit js" where
  "click b r p =
     (case r of
        None \<Rightarrow> (Inl TypeError, p)
      | Some el \<Rightarrow>
          if kind el = HTMLElement
          then (Inr (), p\<lparr>document := b el (document p), trace := trace p @ [Click el]\<rparr>)
          else (Inl TypeError, p))"

section \<open>The script\<close>

text \<open>One statement \<^verbatim>\<open>if(event.key == k){ document.getElementById(i).click(); }\<close>.\<close>

definition if_key_click :: "behaviour \<Rightarrow> dom_event \<Rightarrow> string \<Rightarrow> string \<Rightarrow> unit js" where
  "if_key_click b e k i p =
     (case key_equals e k p of
        (True, p1) \<Rightarrow> (case getElementById i p1 of (r, p2) \<Rightarrow> click b r p2)
      | (False, p1) \<Rightarrow> (Inr (), p1))"

text \<open>Statement sequencing: an exception thrown by the first statement skips the rest.\<close>

definition then_do :: "unit js \<Rightarrow> unit js \<Rightarrow> unit js" where
  "then_do m n p =
     (case m p of
        (Inl err, p') \<Rightarrow> (Inl err, p')
      | (Inr u, p') \<Rightarrow> n p')"

text \<open>
  \<^verbatim>\<open>function clickButtonFunction(event)\<close>, lines 3 to 16: four independent \<^verbatim>\<open>if\<close>
  statements in the order left, right, up, down, and no \<^verbatim>\<open>return\<close>.
\<close>

definition clickButtonFunction :: "behaviour \<Rightarrow> dom_event \<Rightarrow> unit js" where
  "clickButtonFunction b e =
     then_do (if_key_click b e ''ArrowLeft'' ''move-left'')
    (then_do (if_key_click b e ''ArrowRight'' ''move-right'')
    (then_do (if_key_click b e ''ArrowUp'' ''move-up'')
             (if_key_click b e ''ArrowDown'' ''move-down'')))"

text \<open>
  \<^verbatim>\<open>document.addEventListener(ty, cb)\<close>: the host appends the listener unless the same
  callback is already registered for the same type.
\<close>

definition addEventListener :: "string \<Rightarrow> callback \<Rightarrow> page \<Rightarrow> page" where
  "addEventListener ty cb p =
     (if (ty, cb) \<in> set (listeners p) then p
      else p\<lparr>listeners := listeners p @ [(ty, cb)]\<rparr>)"

text \<open>Line 1, the only top-level statement: what loading the script does.\<close>

definition script_load :: "page \<Rightarrow> page" where
  "script_load p = addEventListener ''keydown'' ClickButtonFunction p"

text \<open>A page that no script has touched yet.\<close>

definition initial_page :: "document \<Rightarrow> page" where
  "initial_page d = \<lparr>document = d, listeners = [], trace = [], reported = []\<rparr>"

section \<open>The host's event loop\<close>

text \<open>
  The host calls a listener with the event; an exception that escapes the listener is
  reported and the host goes on. The value a listener returns is dropped.
\<close>

fun invoke :: "behaviour \<Rightarrow> callback \<Rightarrow> dom_event \<Rightarrow> page \<Rightarrow> page" where
  "invoke b ClickButtonFunction e p =
     (case clickButtonFunction b e p of
        (Inl err, p') \<Rightarrow> p'\<lparr>reported := reported p' @ [err]\<rparr>
      | (Inr u, p') \<Rightarrow> p')"

text \<open>
  Dispatching an event on the document calls, in registration order, the listeners that
  were registered for the event's type when the dispatch began.
\<close>

definition dispatchEvent :: "behaviour \<Rightarrow> dom_event \<Rightarrow> page \<Rightarrow> page" where
  "dispatchEvent b e p =
     fold (\<lambda>l q. if fst l = ev_type e then invoke b (snd l) e q else q) (listeners p) p"

text \<open>Events are handled one at a time, each to completion, in order of arrival.\<close>

primrec run :: "behaviour \<Rightarrow> dom_event list \<Rightarrow> page \<Rightarrow> page" where
  "run b [] p = p"
| "run b (e # es) p = run b es (dispatchEvent b e p)"

section \<open>Reading the log\<close>

primrec clicks_of :: "op list \<Rightarrow> element list" where
  "clicks_of [] = []"
| "clicks_of (x # xs) =
     (case x of Click el \<Rightarrow> el # clicks_of xs | _ \<Rightarrow> clicks_of xs)"

primrec lookups_of :: "op list \<Rightarrow> string list" where
  "lookups_of [] = []"
| "lookups_of (x # xs) =
     (case x of Lookup i \<Rightarrow> i # lookups_of xs | _ \<Rightarrow> lookups_of xs)"

primrec compares_of :: "op list \<Rightarrow> string list" where
  "compares_of [] = []"
| "compares_of (x # xs) =
     (case x of KeyCompared s \<Rightarrow> s # compares_of xs | _ \<Rightarrow> compares_of xs)"

text \<open>The activations so far: the elements on which \<^verbatim>\<open>click\<close> was called, oldest first.\<close>

definition activations :: "page \<Rightarrow> element list" where
  "activations p = clicks_of (trace p)"

text \<open>
  The four statements of the handler pair a key name with an element identifier: lines 4-5,
  7-8, 10-11 and 13-14 of the script.
\<close>

abbreviation arrow_bindings :: "(string \<times> string) set" where
  "arrow_bindings \<equiv>
     {(''ArrowLeft'', ''move-left''), (''ArrowRight'', ''move-right''),
      (''ArrowUp'', ''move-up''), (''ArrowDown'', ''move-down'')}"

text \<open>A lookup result on which \<^verbatim>\<open>.click()\<close> throws: \<^verbatim>\<open>null\<close>, or an element of another kind.\<close>

abbreviation cannot_click :: "element option \<Rightarrow> bool" where
  "cannot_click r \<equiv> r = None \<or> (\<exists>el. r = Some el \<and> kind el \<noteq> HTMLElement)"

section \<open>Activations of a sequence of events\<close>

text \<open>
  What one event produces individually: the activations of one call of the handler with
  that event, alone, on a fresh page with document \<open>d\<close>, and the document that call
  leaves. The activations of a sequence of events are then the concatenation, in order of
  arrival, of what each event produces on the document its predecessors left.
\<close>

definition activations_of_event :: "behaviour \<Rightarrow> dom_event \<Rightarrow> document \<Rightarrow> element list" where
  "activations_of_event b e d = activations (snd (clickButtonFunction b e (initial_page d)))"

definition document_after_event :: "behaviour \<Rightarrow> dom_event \<Rightarrow> document \<Rightarrow> document" where
  "document_after_event b e d = document (snd (clickButtonFunction b e (initial_page d)))"

primrec activations_in_order :: "behaviour \<Rightarrow> dom_event list \<Rightarrow> document \<Rightarrow> element list" where
  "activations_in_order b [] d = []"
| "activations_in_order b (e # es) d =
     activations_of_event b e d @ activations_in_order b es (document_after_event b e d)"

section \<open>Sample pages and events\<close>

text \<open>
  A plain press of a key, a button, an SVG shape, three behaviours attached to activation
  (one that leaves the document alone, one that removes the activated node, one that
  empties the document), and a page with the four buttons.
\<close>

definition keydown :: "string \<Rightarrow> dom_event" where
  "keydown k = \<lparr>ev_type = ''keydown'', key = k, ctrlKey = False, shiftKey = False,
                altKey = False, metaKey = False, repeat = False\<rparr>"

definition button :: "string \<Rightarrow> nat \<Rightarrow> element" where
  "button i n = \<lparr>elem_id = i, node = n, kind = HTMLElement\<rparr>"

definition svg_shape :: "string \<Rightarrow> nat \<Rightarrow> element" where
  "svg_shape i n = \<lparr>elem_id = i, node = n, kind = SVGElement\<rparr>"

definition no_effect :: behaviour where
  "no_effect el d = d"

definition remove_clicked :: behaviour where
  "remove_clicked el d = filter (\<lambda>x. node x \<noteq> node el) d"

definition wipe_document :: behaviour where
  "wipe_document el d = []"

definition four_buttons :: document where
  "four_buttons = [button ''move-up'' 0, button ''move-left'' 1, button ''move-right'' 2,
                   button ''move-down'' 3]"

section \<open>What one call of the handler does\<close>

lemma clicks_of_append: "clicks_of (xs @ ys) = clicks_of xs @ clicks_of ys"
  by (induction xs) (simp_all split: op.splits)

lemma lookups_of_append: "lookups_of (xs @ ys) = lookups_of xs @ lookups_of ys"
  by (induction xs) (simp_all split: op.splits)

lemma if_key_click_miss:
  "key e \<noteq> k \<Longrightarrow> if_key_click b e k i p = (Inr (), p\<lparr>trace := trace p @ [KeyCompared k]\<rparr>)"
  by (simp add: if_key_click_def key_equals_def)

lemma if_key_click_throws:
  "key e = k \<Longrightarrow> cannot_click (find (\<lambda>x. elem_id x = i) (document p)) \<Longrightarrow>
   if_key_click b e k i p = (Inl TypeError, p\<lparr>trace := trace p @ [KeyCompared k, Lookup i]\<rparr>)"
  by (auto simp: if_key_click_def key_equals_def getElementById_def click_def)

lemma if_key_click_present:
  "key e = k \<Longrightarrow> find (\<lambda>x. elem_id x = i) (document p) = Some el \<Longrightarrow>
   kind el = HTMLElement \<Longrightarrow>
   if_key_click b e k i p =
     (Inr (), p\<lparr>document := b el (document p),
               trace := trace p @ [KeyCompared k, Lookup i, Click el]\<rparr>)"
  by (simp add: if_key_click_def key_equals_def getElementById_def click_def)

lemma cbf_other:
  "key e \<noteq> ''ArrowLeft'' \<Longrightarrow> key e \<noteq> ''ArrowRight'' \<Longrightarrow> key e \<noteq> ''ArrowUp'' \<Longrightarrow>
   key e \<noteq> ''ArrowDown'' \<Longrightarrow>
   clickButtonFunction b e p =
     (Inr (), p\<lparr>trace := trace p @ [KeyCompared ''ArrowLeft'', KeyCompared ''ArrowRight'',
                                     KeyCompared ''ArrowUp'', KeyCompared ''ArrowDown'']\<rparr>)"
  by (simp add: clickButtonFunction_def then_do_def if_key_click_miss)

lemma cbf_left_throws:
  "key e = ''ArrowLeft'' \<Longrightarrow> cannot_click (fst (getElementById ''move-left'' p)) \<Longrightarrow>
   clickButtonFunction b e p =
     (Inl TypeError, p\<lparr>trace := trace p @ [KeyCompared ''ArrowLeft'', Lookup ''move-left'']\<rparr>)"
  by (simp add: clickButtonFunction_def then_do_def if_key_click_throws getElementById_def)

lemma cbf_left_present:
  "key e = ''ArrowLeft'' \<Longrightarrow> fst (getElementById ''move-left'' p) = Some el \<Longrightarrow>
   kind el = HTMLElement \<Longrightarrow>
   clickButtonFunction b e p =
     (Inr (), p\<lparr>document := b el (document p),
               trace := trace p @ [KeyCompared ''ArrowLeft'', Lookup ''move-left'', Click el,
                 KeyCompared ''ArrowRight'', KeyCompared ''ArrowUp'', KeyCompared ''ArrowDown'']\<rparr>)"
  by (simp add: clickButtonFunction_def then_do_def if_key_click_present if_key_click_miss getElementById_def)

lemma cbf_right_throws:
  "key e = ''ArrowRight'' \<Longrightarrow> cannot_click (fst (getElementById ''move-right'' p)) \<Longrightarrow>
   clickButtonFunction b e p =
     (Inl TypeError, p\<lparr>trace := trace p @ [KeyCompared ''ArrowLeft'', KeyCompared ''ArrowRight'', Lookup ''move-right'']\<rparr>)"
  by (simp add: clickButtonFunction_def then_do_def if_key_click_throws if_key_click_miss getElementById_def)

lemma cbf_right_present:
  "key e = ''ArrowRight'' \<Longrightarrow> fst (getElementById ''move-right'' p) = Some el \<Longrightarrow>
   kind el = HTMLElement \<Longrightarrow>
   clickButtonFunction b e p =
     (Inr (), p\<lparr>document := b el (document p),
               trace := trace p @ [KeyCompared ''ArrowLeft'', KeyCompared ''ArrowRight'', Lookup ''move-right'', Click el,
                  KeyCompared ''ArrowUp'', KeyCompared ''ArrowDown'']\<rparr>)"
  by (simp add: clickButtonFunction_def then_do_def if_key_click_present if_key_click_miss getElementById_def)

lemma cbf_up_throws:
  "key e = ''ArrowUp'' \<Longrightarrow> cannot_click (fst (getElementById ''move-up'' p)) \<Longrightarrow>
   clickButtonFunction b e p =
     (Inl TypeError, p\<lparr>trace := trace p @ [KeyCompared ''ArrowLeft'', KeyCompared ''ArrowRight'', KeyCompared ''ArrowUp'', Lookup ''move-up'']\<rparr>)"
  by (simp add: clickButtonFunction_def then_do_def if_key_click_throws if_key_click_miss getElementById_def)

lemma cbf_up_present:
  "key e = ''ArrowUp'' \<Longrightarrow> fst (getElementById ''move-up'' p) = Some el \<Longrightarrow>
   kind el = HTMLElement \<Longrightarrow>
   clickButtonFunction b e p =
     (Inr (), p\<lparr>document := b el (document p),
               trace := trace p @ [KeyCompared ''ArrowLeft'', KeyCompared ''ArrowRight'', KeyCompared ''ArrowUp'', Lookup ''move-up'', Click el,
                  KeyCompared ''ArrowDown'']\<rparr>)"
  by (simp add: clickButtonFunction_def then_do_def if_key_click_present if_key_click_miss getElementById_def)

lemma cbf_down_throws:
  "key e = ''ArrowDown'' \<Longrightarrow> cannot_click (fst (getElementById ''move-down'' p)) \<Longrightarrow>
   clickButtonFunction b e p =
     (Inl TypeError, p\<lparr>trace := trace p @ [KeyCompared ''ArrowLeft'', KeyCompared ''ArrowRight'', KeyCompared ''ArrowUp'', KeyCompared ''ArrowDown'', Lookup ''move-down'']\<rparr>)"
  by (simp add: clickButtonFunction_def then_do_def if_key_click_throws if_key_click_miss getElementById_def)

lemma cbf_down_present:
  "key e = ''ArrowDown'' \<Longrightarrow> fst (getElementById ''move-down'' p) = Some el \<Longrightarrow>
   kind el = HTMLElement \<Longrightarrow>
   clickButtonFunction b e p =
     (Inr (), p\<lparr>document := b el (document p),
               trace := trace p @ [KeyCompared ''ArrowLeft'', KeyCompared ''ArrowRight'', KeyCompared ''ArrowUp'', KeyCompared ''ArrowDown'', Lookup ''move-down'', Click el]\<rparr>)"
  by (simp add: clickButtonFunction_def then_do_def if_key_click_present if_key_click_miss getElementById_def)

lemma found_id: "fst (getElementById i p) = Some el \<Longrightarrow> elem_id el = i \<and> el \<in> set (document p)"
  by (auto simp: getElementById_def find_Some_iff)

lemma cbf_other':
  assumes "\<And>i. (key e, i) \<notin> arrow_bindings"
  shows "clickButtonFunction b e p =
     (Inr (), p\<lparr>trace := trace p @ [KeyCompared ''ArrowLeft'', KeyCompared ''ArrowRight'',
                                     KeyCompared ''ArrowUp'', KeyCompared ''ArrowDown'']\<rparr>)"
  using assms by (intro cbf_other) auto

lemma cbf_throws:
  assumes "(key e, i) \<in> arrow_bindings" and "cannot_click (fst (getElementById i p))"
  shows "\<exists>ops. clickButtonFunction b e p = (Inl TypeError, p\<lparr>trace := trace p @ ops\<rparr>)
           \<and> clicks_of ops = [] \<and> lookups_of ops = [i] \<and> length (compares_of ops) \<le> 4
           \<and> length ops \<le> 6"
proof -
  from assms(1) consider
      "key e = ''ArrowLeft''" "i = ''move-left''"
    | "key e = ''ArrowRight''" "i = ''move-right''"
    | "key e = ''ArrowUp''" "i = ''move-up''"
    | "key e = ''ArrowDown''" "i = ''move-down''"
    by auto
  then show ?thesis
  proof cases
    case 1
    with assms(2) show ?thesis
      by (intro exI[of _ "[KeyCompared ''ArrowLeft'', Lookup ''move-left'']"])
         (simp add: cbf_left_throws)
  next
    case 2
    with assms(2) show ?thesis
      by (intro exI[of _ "[KeyCompared ''ArrowLeft'', KeyCompared ''ArrowRight'', Lookup ''move-right'']"])
         (simp add: cbf_right_throws)
  next
    case 3
    with assms(2) show ?thesis
      by (intro exI[of _ "[KeyCompared ''ArrowLeft'', KeyCompared ''ArrowRight'', KeyCompared ''ArrowUp'', Lookup ''move-up'']"])
         (simp add: cbf_up_throws)
  next
    case 4
    with assms(2) show ?thesis
      by (intro exI[of _ "[KeyCompared ''ArrowLeft'', KeyCompared ''ArrowRight'', KeyCompared ''ArrowUp'', KeyCompared ''ArrowDown'', Lookup ''move-down'']"])
         (simp add: cbf_down_throws)
  qed
qed

lemma cbf_absent:
  assumes "(key e, i) \<in> arrow_bindings" and "fst (getElementById i p) = None"
  shows "\<exists>ops. clickButtonFunction b e p = (Inl TypeError, p\<lparr>trace := trace p @ ops\<rparr>)
           \<and> clicks_of ops = [] \<and> lookups_of ops = [i] \<and> length (compares_of ops) \<le> 4
           \<and> length ops \<le> 6"
  using assms by (intro cbf_throws) simp_all

lemma cbf_present:
  assumes "(key e, i) \<in> arrow_bindings" and "fst (getElementById i p) = Some el"
      and "kind el = HTMLElement"
  shows "\<exists>ops. clickButtonFunction b e p =
             (Inr (), p\<lparr>document := b el (document p), trace := trace p @ ops\<rparr>)
           \<and> clicks_of ops = [el] \<and> lookups_of ops = [i] \<and> length (compares_of ops) \<le> 4
           \<and> length ops \<le> 6"
proof -
  from assms(1) consider
      "key e = ''ArrowLeft''" "i = ''move-left''"
    | "key e = ''ArrowRight''" "i = ''move-right''"
    | "key e = ''ArrowUp''" "i = ''move-up''"
    | "key e = ''ArrowDown''" "i = ''move-down''"
    by auto
  then show ?thesis
  proof cases
    case 1
    with assms(2,3) show ?thesis
      by (intro exI[of _ "[KeyCompared ''ArrowLeft'', Lookup ''move-left'', Click el, KeyCompared ''ArrowRight'', KeyCompared ''ArrowUp'', KeyCompared ''ArrowDown'']"])
         (simp add: cbf_left_present)
  next
    case 2
    with assms(2,3) show ?thesis
      by (intro exI[of _ "[KeyCompared ''ArrowLeft'', KeyCompared ''ArrowRight'', Lookup ''move-right'', Click el, KeyCompared ''ArrowUp'', KeyCompared ''ArrowDown'']"])
         (simp add: cbf_right_present)
  next
    case 3
    with assms(2,3) show ?thesis
      by (intro exI[of _ "[KeyCompared ''ArrowLeft'', KeyCompared ''ArrowRight'', KeyCompared ''ArrowUp'', Lookup ''move-up'', Click el, KeyCompared ''ArrowDown'']"])
         (simp add: cbf_up_present)
  next
    case 4
    with assms(2,3) show ?thesis
      by (intro exI[of _ "[KeyCompared ''ArrowLeft'', KeyCompared ''ArrowRight'', KeyCompared ''ArrowUp'', KeyCompared ''ArrowDown'', Lookup ''move-down'', Click el]"])
         (simp add: cbf_down_present)
  qed
qed

section \<open>Two views of the same document\<close>

lemma if_key_click_same_view:
  assumes "key e = key e'" and "document p = document q"
  shows "\<exists>r d ops. if_key_click b e k i p = (r, p\<lparr>document := d, trace := trace p @ ops\<rparr>)
                 \<and> if_key_click b e' k i q = (r, q\<lparr>document := d, trace := trace q @ ops\<rparr>)"
proof (cases "key e = k")
  case False
  with assms have "if_key_click b e k i p
        = (Inr (), p\<lparr>document := document p, trace := trace p @ [KeyCompared k]\<rparr>)"
    and "if_key_click b e' k i q
        = (Inr (), q\<lparr>document := document p, trace := trace q @ [KeyCompared k]\<rparr>)"
    by (simp_all add: if_key_click_miss)
  then show ?thesis by blast
next
  case True
  with assms have eq: "key e = k" "key e' = k" by simp_all
  show ?thesis
  proof (cases "cannot_click (find (\<lambda>x. elem_id x = i) (document p))")
    case True
    with eq assms(2) have "if_key_click b e k i p
        = (Inl TypeError, p\<lparr>document := document p, trace := trace p @ [KeyCompared k, Lookup i]\<rparr>)"
      and "if_key_click b e' k i q
        = (Inl TypeError, q\<lparr>document := document p, trace := trace q @ [KeyCompared k, Lookup i]\<rparr>)"
      by (simp_all add: if_key_click_throws)
    then show ?thesis by blast
  next
    case False
    then obtain el where "find (\<lambda>x. elem_id x = i) (document p) = Some el"
      and "kind el = HTMLElement"
      by auto
    with eq assms(2) have "if_key_click b e k i p
        = (Inr (), p\<lparr>document := b el (document p),
                     trace := trace p @ [KeyCompared k, Lookup i, Click el]\<rparr>)"
      and "if_key_click b e' k i q
        = (Inr (), q\<lparr>document := b el (document p),
                     trace := trace q @ [KeyCompared k, Lookup i, Click el]\<rparr>)"
      by (simp_all add: if_key_click_present)
    then show ?thesis by blast
  qed
qed

lemma then_do_same_view:
  assumes m: "\<And>p q. document p = document q \<Longrightarrow>
             \<exists>r d ops. m p = (r, p\<lparr>document := d, trace := trace p @ ops\<rparr>)
                     \<and> m' q = (r, q\<lparr>document := d, trace := trace q @ ops\<rparr>)"
      and n: "\<And>p q. document p = document q \<Longrightarrow>
             \<exists>r d ops. n p = (r, p\<lparr>document := d, trace := trace p @ ops\<rparr>)
                     \<and> n' q = (r, q\<lparr>document := d, trace := trace q @ ops\<rparr>)"
      and pq: "document p = document q"
  shows "\<exists>r d ops. then_do m n p = (r, p\<lparr>document := d, trace := trace p @ ops\<rparr>)
                 \<and> then_do m' n' q = (r, q\<lparr>document := d, trace := trace q @ ops\<rparr>)"
proof -
  from m [OF pq] obtain r d ops where
    mp: "m p = (r, p\<lparr>document := d, trace := trace p @ ops\<rparr>)" and
    mq: "m' q = (r, q\<lparr>document := d, trace := trace q @ ops\<rparr>)"
    by blast
  show ?thesis
  proof (cases r)
    case (Inl err)
    with mp mq have "then_do m n p = (r, p\<lparr>document := d, trace := trace p @ ops\<rparr>)"
      and "then_do m' n' q = (r, q\<lparr>document := d, trace := trace q @ ops\<rparr>)"
      by (simp_all add: then_do_def)
    then show ?thesis by blast
  next
    case (Inr u)
    let ?p1 = "p\<lparr>document := d, trace := trace p @ ops\<rparr>"
    let ?q1 = "q\<lparr>document := d, trace := trace q @ ops\<rparr>"
    have "document ?p1 = document ?q1" by simp
    from n [OF this] obtain r2 d2 ops2 where
      np: "n ?p1 = (r2, ?p1\<lparr>document := d2, trace := trace ?p1 @ ops2\<rparr>)" and
      nq: "n' ?q1 = (r2, ?q1\<lparr>document := d2, trace := trace ?q1 @ ops2\<rparr>)"
      by blast
    from Inr mp np have "then_do m n p = (r2, p\<lparr>document := d2, trace := trace p @ (ops @ ops2)\<rparr>)"
      by (simp add: then_do_def)
    moreover from Inr mq nq have "then_do m' n' q = (r2, q\<lparr>document := d2, trace := trace q @ (ops @ ops2)\<rparr>)"
      by (simp add: then_do_def)
    ultimately show ?thesis by blast
  qed
qed

lemma cbf_same_view:
  assumes "key e = key e'" and "document p = document q"
  shows "\<exists>r d ops. clickButtonFunction b e p = (r, p\<lparr>document := d, trace := trace p @ ops\<rparr>)
                 \<and> clickButtonFunction b e' q = (r, q\<lparr>document := d, trace := trace q @ ops\<rparr>)"
  unfolding clickButtonFunction_def
  by (intro then_do_same_view if_key_click_same_view assms)

lemma cbf_frame:
  "\<exists>r d ops. clickButtonFunction b e p = (r, p\<lparr>document := d, trace := trace p @ ops\<rparr>)"
  using cbf_same_view [of e e p p b] by blast

lemma listeners_cbf: "listeners (snd (clickButtonFunction b e p)) = listeners p"
  using cbf_frame [of b e p] by auto

lemma listeners_invoke: "listeners (invoke b cb e p) = listeners p"
  using listeners_cbf [of b e p]
  by (cases cb) (auto split: prod.splits sum.splits)

lemma listeners_fold_invoke:
  "listeners (fold (\<lambda>l q. if fst l = ty then invoke b (snd l) e q else q) ls p) = listeners p"
  by (induction ls arbitrary: p) (simp_all add: listeners_invoke)

lemma listeners_dispatchEvent: "listeners (dispatchEvent b e p) = listeners p"
  by (simp add: dispatchEvent_def listeners_fold_invoke)

lemma listeners_run: "listeners (run b es p) = listeners p"
  by (induction es arbitrary: p) (simp_all add: listeners_dispatchEvent)

lemma dispatchEvent_loaded:
  "listeners p = [(''keydown'', ClickButtonFunction)] \<Longrightarrow>
   dispatchEvent b e p = (if ev_type e = ''keydown'' then invoke b ClickButtonFunction e p else p)"
  by (simp add: dispatchEvent_def)

lemma listeners_script_load:
  "listeners (script_load (initial_page d)) = [(''keydown'', ClickButtonFunction)]"
  by (simp add: script_load_def addEventListener_def initial_page_def)

lemmas sample_defs =
  keydown_def button_def svg_shape_def four_buttons_def no_effect_def remove_clicked_def
  wipe_document_def initial_page_def script_load_def addEventListener_def

lemmas handler_defs =
  clickButtonFunction_def then_do_def if_key_click_def key_equals_def getElementById_def
  click_def

lemma cbf_cases [case_names other throws present]:
  obtains (other) "\<And>i. (key e, i) \<notin> arrow_bindings"
  | (throws) i where "(key e, i) \<in> arrow_bindings"
      and "cannot_click (fst (getElementById i p))"
  | (present) i el where "(key e, i) \<in> arrow_bindings"
      and "fst (getElementById i p) = Some el" and "kind el = HTMLElement"
proof (cases "\<exists>i. (key e, i) \<in> arrow_bindings")
  case False
  then show thesis using other by blast
next
  case True
  then obtain i where i: "(key e, i) \<in> arrow_bindings" by blast
  show thesis
  proof (cases "cannot_click (fst (getElementById i p))")
    case True
    with i show thesis by (rule throws)
  next
    case False
    then obtain el where "fst (getElementById i p) = Some el" and "kind el = HTMLElement"
      by auto
    with i show thesis by (rule present)
  qed
qed

lemma cbf_bounds:
  "\<exists>r d ops. clickButtonFunction b e p = (r, p\<lparr>document := d, trace := trace p @ ops\<rparr>)
     \<and> length (compares_of ops) \<le> 4 \<and> length (lookups_of ops) \<le> 1
     \<and> length (clicks_of ops) \<le> 1 \<and> length ops \<le> 6"
proof (cases rule: cbf_cases [where e = e and p = p])
  case other
  let ?ops = "[KeyCompared ''ArrowLeft'', KeyCompared ''ArrowRight'',
               KeyCompared ''ArrowUp'', KeyCompared ''ArrowDown'']"
  from cbf_other' [OF other, of b p]
  have "clickButtonFunction b e p = (Inr (), p\<lparr>document := document p, trace := trace p @ ?ops\<rparr>)"
    by simp
  moreover have "length (compares_of ?ops) \<le> 4 \<and> length (lookups_of ?ops) \<le> 1
     \<and> length (clicks_of ?ops) \<le> 1 \<and> length ?ops \<le> 6" by simp
  ultimately show ?thesis by blast
next
  case (throws i)
  from cbf_throws [OF throws, of b] obtain ops where
    "clickButtonFunction b e p = (Inl TypeError, p\<lparr>document := document p, trace := trace p @ ops\<rparr>)"
    "length (compares_of ops) \<le> 4 \<and> length (lookups_of ops) \<le> 1
     \<and> length (clicks_of ops) \<le> 1 \<and> length ops \<le> 6"
    by auto
  then show ?thesis by blast
next
  case (present i el)
  from cbf_present [OF present, of b] obtain ops where
    "clickButtonFunction b e p = (Inr (), p\<lparr>document := b el (document p), trace := trace p @ ops\<rparr>)"
    "length (compares_of ops) \<le> 4 \<and> length (lookups_of ops) \<le> 1
     \<and> length (clicks_of ops) \<le> 1 \<and> length ops \<le> 6"
    by auto
  then show ?thesis by blast
qed

lemma if_key_click_key_only: "key e = key e' \<Longrightarrow> if_key_click b e = if_key_click b e'"
  by (intro ext) (simp add: if_key_click_def key_equals_def)

lemma cbf_key_only: "key e = key e' \<Longrightarrow> clickButtonFunction b e = clickButtonFunction b e'"
  by (simp add: clickButtonFunction_def if_key_click_key_only [of e e'])

section \<open>The event loop on a page with the script loaded\<close>

lemma invoke_same_view:
  assumes "document p = document q"
  shows "document (invoke b cb e p) = document (invoke b cb e q)
       \<and> (\<exists>acts. activations (invoke b cb e p) = activations p @ acts
                \<and> activations (invoke b cb e q) = activations q @ acts)"
proof -
  from cbf_same_view [OF refl assms, where e = e and b = b] obtain r d ops where
    "clickButtonFunction b e p = (r, p\<lparr>document := d, trace := trace p @ ops\<rparr>)"
    "clickButtonFunction b e q = (r, q\<lparr>document := d, trace := trace q @ ops\<rparr>)"
    by blast
  then show ?thesis
    by (cases cb; cases r) (simp_all add: activations_def clicks_of_append)
qed

lemma dispatchEvent_same_view:
  assumes "listeners p = [(''keydown'', ClickButtonFunction)]"
      and "listeners q = [(''keydown'', ClickButtonFunction)]"
      and "document p = document q"
  shows "document (dispatchEvent b e p) = document (dispatchEvent b e q)
       \<and> (\<exists>acts. activations (dispatchEvent b e p) = activations p @ acts
                \<and> activations (dispatchEvent b e q) = activations q @ acts)"
  using invoke_same_view [OF assms(3), of b ClickButtonFunction e] assms
  by (simp add: dispatchEvent_loaded)

lemma dispatchEvent_keydown:
  assumes "listeners p = [(''keydown'', ClickButtonFunction)]" and "ev_type e = ''keydown''"
  shows "activations (dispatchEvent b e p) = activations p @ activations_of_event b e (document p)"
    and "document (dispatchEvent b e p) = document_after_event b e (document p)"
proof -
  have "document p = document (initial_page (document p))"
    by (simp add: initial_page_def)
  from cbf_same_view [OF refl this, where e = e and b = b] obtain r d ops where
    "clickButtonFunction b e p = (r, p\<lparr>document := d, trace := trace p @ ops\<rparr>)"
    and "clickButtonFunction b e (initial_page (document p))
           = (r, (initial_page (document p))\<lparr>document := d,
                   trace := trace (initial_page (document p)) @ ops\<rparr>)"
    by blast
  with assms
  show "activations (dispatchEvent b e p) = activations p @ activations_of_event b e (document p)"
    and "document (dispatchEvent b e p) = document_after_event b e (document p)"
    by (cases r; simp add: dispatchEvent_loaded activations_of_event_def
        document_after_event_def activations_def clicks_of_append initial_page_def)+
qed

lemma activations_run:
  assumes "listeners p = [(''keydown'', ClickButtonFunction)]"
      and "\<forall>e \<in> set es. ev_type e = ''keydown''"
  shows "activations (run b es p) = activations p @ activations_in_order b es (document p)"
  using assms
proof (induction es arbitrary: p)
  case Nil
  show ?case by simp
next
  case (Cons e es)
  from Cons.prems have kd: "ev_type e = ''keydown''"
    and rest: "\<forall>e \<in> set es. ev_type e = ''keydown''"
    by simp_all
  let ?p1 = "dispatchEvent b e p"
  have l1: "listeners ?p1 = [(''keydown'', ClickButtonFunction)]"
    using Cons.prems(1) by (simp add: listeners_dispatchEvent)
  have "activations (run b (e # es) p) = activations (run b es ?p1)"
    by simp
  also have "\<dots> = activations ?p1 @ activations_in_order b es (document ?p1)"
    by (rule Cons.IH [OF l1 rest])
  also have "\<dots> = activations p @ activations_in_order b (e # es) (document p)"
    by (simp add: dispatchEvent_keydown [OF Cons.prems(1) kd])
  finally show ?case .
qed

lemma dispatchEvent_present:
  assumes "listeners p = [(''keydown'', ClickButtonFunction)]" and "ev_type e = ''keydown''"
      and "(key e, i) \<in> arrow_bindings" and "fst (getElementById i p) = Some el"
      and "kind el = HTMLElement"
  shows "activations (dispatchEvent b e p) = activations p @ [el]"
    and "listeners (dispatchEvent b e p) = [(''keydown'', ClickButtonFunction)]"
    and "document (dispatchEvent b e p) = b el (document p)"
proof -
  from cbf_present [OF assms(3,4,5), of b] obtain ops where
    "clickButtonFunction b e p =
       (Inr (), p\<lparr>document := b el (document p), trace := trace p @ ops\<rparr>)"
    and "clicks_of ops = [el]"
    by blast
  with assms(1,2) show "activations (dispatchEvent b e p) = activations p @ [el]"
    and "listeners (dispatchEvent b e p) = [(''keydown'', ClickButtonFunction)]"
    and "document (dispatchEvent b e p) = b el (document p)"
    by (simp_all add: dispatchEvent_loaded activations_def clicks_of_append)
qed

section \<open>The claims\<close>

text \<open>
  C1, as the code has it. For every keydown event whose key is \<^verbatim>\<open>ArrowLeft\<close>,
  \<^verbatim>\<open>ArrowRight\<close>, \<^verbatim>\<open>ArrowUp\<close> or \<^verbatim>\<open>ArrowDown\<close>, if the element with the identifier
  \<^verbatim>\<open>move-left\<close>, \<^verbatim>\<open>move-right\<close>, \<^verbatim>\<open>move-up\<close>, \<^verbatim>\<open>move-down\<close> respectively exists
  and is an HTML element, the handler returns normally and adds exactly one activation,
  that of the element the lookup found, which carries that identifier; no other element
  is activated.
\<close>

theorem arrow_key_clicks_its_button:
  assumes "(key e, i) \<in> arrow_bindings" and "fst (getElementById i p) = Some el"
      and "kind el = HTMLElement"
  shows "fst (clickButtonFunction b e p) = Inr ()
       \<and> activations (snd (clickButtonFunction b e p)) = activations p @ [el]
       \<and> elem_id el = i \<and> el \<in> set (document p)"
proof -
  from cbf_present [OF assms, of b] obtain ops where
    "clickButtonFunction b e p =
       (Inr (), p\<lparr>document := b el (document p), trace := trace p @ ops\<rparr>)"
    and "clicks_of ops = [el]"
    by blast
  then have "fst (clickButtonFunction b e p) = Inr ()"
    and "activations (snd (clickButtonFunction b e p)) = activations p @ [el]"
    by (simp_all add: activations_def clicks_of_append)
  with found_id [OF assms(2)] show ?thesis by simp
qed

theorem arrow_key_clicks_its_button_witness:
  "(key (keydown ''ArrowLeft''), ''move-left'') \<in> arrow_bindings
   \<and> fst (getElementById ''move-left'' (script_load (initial_page four_buttons)))
       = Some (button ''move-left'' 1)
   \<and> kind (button ''move-left'' 1) = HTMLElement
   \<and> fst (clickButtonFunction remove_clicked (keydown ''ArrowLeft'')
            (script_load (initial_page four_buttons))) = Inr ()
   \<and> activations (snd (clickButtonFunction remove_clicked (keydown ''ArrowLeft'')
            (script_load (initial_page four_buttons)))) = [button ''move-left'' 1]"
proof -
  have k: "(key (keydown ''ArrowLeft''), ''move-left'') \<in> arrow_bindings"
    by (simp add: keydown_def)
  have f: "fst (getElementById ''move-left'' (script_load (initial_page four_buttons)))
             = Some (button ''move-left'' 1)"
    by (simp add: getElementById_def sample_defs)
  have h: "kind (button ''move-left'' 1) = HTMLElement"
    by (simp add: button_def)
  have "activations (script_load (initial_page four_buttons)) = []"
    by (simp add: activations_def sample_defs)
  with k f h arrow_key_clicks_its_button [OF k f h, of remove_clicked] show ?thesis
    by simp
qed

theorem arrow_key_clicks_its_button_counterexample:
  "key (keydown ''ArrowLeft'') = ''ArrowLeft''
   \<and> fst (getElementById ''move-left''
        (script_load (initial_page [svg_shape ''move-left'' 0])))
       = Some (svg_shape ''move-left'' 0)
   \<and> fst (clickButtonFunction no_effect (keydown ''ArrowLeft'')
        (script_load (initial_page [svg_shape ''move-left'' 0]))) = Inl TypeError
   \<and> activations (snd (clickButtonFunction no_effect (keydown ''ArrowLeft'')
        (script_load (initial_page [svg_shape ''move-left'' 0])))) = []"
  by (simp add: activations_def handler_defs sample_defs)

text \<open>
  C2, as the code has it. For every keydown event whose key is one of the four arrow-key
  names, if no element with the expected identifier exists in the document, the lookup
  yields \<^verbatim>\<open>null\<close> and the call of \<^verbatim>\<open>click\<close> on it throws a \<^verbatim>\<open>TypeError\<close>: the
  handler makes no activation and the invocation ends there. The exception stays within
  that invocation: the host reports it, the document and the registration are as before,
  and every later event is handled as if the failed press had not happened.
\<close>

theorem absent_target_raises_TypeError:
  assumes "(key e, i) \<in> arrow_bindings" and "fst (getElementById i p) = None"
  shows "fst (clickButtonFunction b e p) = Inl TypeError
       \<and> activations (snd (clickButtonFunction b e p)) = activations p
       \<and> document (snd (clickButtonFunction b e p)) = document p
       \<and> listeners (snd (clickButtonFunction b e p)) = listeners p
       \<and> (listeners p = [(''keydown'', ClickButtonFunction)] \<and> ev_type e = ''keydown'' \<longrightarrow>
            reported (dispatchEvent b e p) = reported p @ [TypeError]
          \<and> listeners (dispatchEvent b e p) = listeners p
          \<and> document (dispatchEvent b e p) = document p
          \<and> activations (dispatchEvent b e p) = activations p
          \<and> (\<forall>e'. activations (dispatchEvent b e' (dispatchEvent b e p))
                    = activations (dispatchEvent b e' p)
                 \<and> document (dispatchEvent b e' (dispatchEvent b e p))
                    = document (dispatchEvent b e' p)))"
proof -
  from cbf_absent [OF assms, of b] obtain ops where
    call: "clickButtonFunction b e p = (Inl TypeError, p\<lparr>trace := trace p @ ops\<rparr>)"
    and none: "clicks_of ops = []"
    by blast
  have handler: "fst (clickButtonFunction b e p) = Inl TypeError
       \<and> activations (snd (clickButtonFunction b e p)) = activations p
       \<and> document (snd (clickButtonFunction b e p)) = document p
       \<and> listeners (snd (clickButtonFunction b e p)) = listeners p"
    using call none by (simp add: activations_def clicks_of_append)
  have loop: "reported (dispatchEvent b e p) = reported p @ [TypeError]
          \<and> listeners (dispatchEvent b e p) = listeners p
          \<and> document (dispatchEvent b e p) = document p
          \<and> activations (dispatchEvent b e p) = activations p
          \<and> (\<forall>e'. activations (dispatchEvent b e' (dispatchEvent b e p))
                    = activations (dispatchEvent b e' p)
                 \<and> document (dispatchEvent b e' (dispatchEvent b e p))
                    = document (dispatchEvent b e' p))"
    if loaded: "listeners p = [(''keydown'', ClickButtonFunction)]"
      and kd: "ev_type e = ''keydown''"
  proof -
    let ?p' = "dispatchEvent b e p"
    from loaded kd call have p': "?p' = p\<lparr>trace := trace p @ ops, reported := reported p @ [TypeError]\<rparr>"
      by (simp add: dispatchEvent_loaded)
    with none have same: "reported ?p' = reported p @ [TypeError]" "listeners ?p' = listeners p"
      "document ?p' = document p" "activations ?p' = activations p"
      by (simp_all add: activations_def clicks_of_append)
    have "activations (dispatchEvent b e' ?p') = activations (dispatchEvent b e' p)
        \<and> document (dispatchEvent b e' ?p') = document (dispatchEvent b e' p)" for e'
      using dispatchEvent_same_view [of ?p' p b e'] same loaded by auto
    with same show ?thesis by blast
  qed
  from handler loop show ?thesis by blast
qed

theorem absent_target_raises_TypeError_witness:
  "(key (keydown ''ArrowLeft''), ''move-left'') \<in> arrow_bindings
   \<and> fst (getElementById ''move-left'' (script_load (initial_page [button ''move-right'' 0])))
       = None
   \<and> listeners (script_load (initial_page [button ''move-right'' 0]))
       = [(''keydown'', ClickButtonFunction)]
   \<and> ev_type (keydown ''ArrowLeft'') = ''keydown''
   \<and> fst (clickButtonFunction no_effect (keydown ''ArrowLeft'')
           (script_load (initial_page [button ''move-right'' 0]))) = Inl TypeError
   \<and> reported (dispatchEvent no_effect (keydown ''ArrowLeft'')
           (script_load (initial_page [button ''move-right'' 0]))) = [TypeError]
   \<and> activations (dispatchEvent no_effect (keydown ''ArrowRight'')
        (dispatchEvent no_effect (keydown ''ArrowLeft'')
           (script_load (initial_page [button ''move-right'' 0])))) = [button ''move-right'' 0]"
proof -
  let ?p = "script_load (initial_page [button ''move-right'' 0])"
  have k: "(key (keydown ''ArrowLeft''), ''move-left'') \<in> arrow_bindings"
    by (simp add: keydown_def)
  have f: "fst (getElementById ''move-left'' ?p) = None"
    by (simp add: getElementById_def sample_defs)
  have l: "listeners ?p = [(''keydown'', ClickButtonFunction)]"
    by (simp add: sample_defs)
  have t: "ev_type (keydown ''ArrowLeft'') = ''keydown''"
    by (simp add: keydown_def)
  have r: "reported ?p = []"
    by (simp add: sample_defs)
  have a: "activations (dispatchEvent no_effect (keydown ''ArrowRight'') ?p)
             = [button ''move-right'' 0]"
    by (simp add: dispatchEvent_def activations_def handler_defs sample_defs)
  from absent_target_raises_TypeError [OF k f, of no_effect] k f l t r a show ?thesis
    by simp
qed

theorem absent_target_raises_TypeError_counterexample:
  "key (keydown ''ArrowLeft'') = ''ArrowLeft''
   \<and> fst (getElementById ''move-left'' (script_load (initial_page []))) = None
   \<and> fst (clickButtonFunction no_effect (keydown ''ArrowLeft'')
          (script_load (initial_page []))) = Inl TypeError
   \<and> reported (dispatchEvent no_effect (keydown ''ArrowLeft'')
          (script_load (initial_page []))) = [TypeError]"
  by (simp add: dispatchEvent_def handler_defs sample_defs)

text \<open>
  C3. For every keydown event whose key is none of \<^verbatim>\<open>ArrowLeft\<close>, \<^verbatim>\<open>ArrowRight\<close>,
  \<^verbatim>\<open>ArrowUp\<close>, \<^verbatim>\<open>ArrowDown\<close>, the handler returns normally and has no effect: no
  activation, no element lookup at all, and the document, the registrations and the
  reported errors are as before.
\<close>

theorem other_key_does_nothing:
  assumes "key e \<notin> {''ArrowLeft'', ''ArrowRight'', ''ArrowUp'', ''ArrowDown''}"
  shows "fst (clickButtonFunction b e p) = Inr ()
       \<and> activations (snd (clickButtonFunction b e p)) = activations p
       \<and> lookups_of (trace (snd (clickButtonFunction b e p))) = lookups_of (trace p)
       \<and> document (snd (clickButtonFunction b e p)) = document p
       \<and> listeners (snd (clickButtonFunction b e p)) = listeners p
       \<and> reported (snd (clickButtonFunction b e p)) = reported p"
proof -
  from assms have "clickButtonFunction b e p =
     (Inr (), p\<lparr>trace := trace p @ [KeyCompared ''ArrowLeft'', KeyCompared ''ArrowRight'',
                                     KeyCompared ''ArrowUp'', KeyCompared ''ArrowDown'']\<rparr>)"
    by (intro cbf_other) auto
  then show ?thesis
    by (simp add: activations_def clicks_of_append lookups_of_append)
qed

theorem other_key_does_nothing_witness:
  "key (keydown ''Enter'') \<notin> {''ArrowLeft'', ''ArrowRight'', ''ArrowUp'', ''ArrowDown''}
   \<and> fst (clickButtonFunction remove_clicked (keydown ''Enter'')
          (script_load (initial_page four_buttons))) = Inr ()
   \<and> activations (snd (clickButtonFunction remove_clicked (keydown ''Enter'')
          (script_load (initial_page four_buttons)))) = []
   \<and> document (snd (clickButtonFunction remove_clicked (keydown ''Enter'')
          (script_load (initial_page four_buttons)))) = four_buttons"
proof -
  have k: "key (keydown ''Enter'') \<notin> {''ArrowLeft'', ''ArrowRight'', ''ArrowUp'', ''ArrowDown''}"
    by (simp add: keydown_def)
  have "activations (script_load (initial_page four_buttons)) = []"
    and "document (script_load (initial_page four_buttons)) = four_buttons"
    by (simp_all add: activations_def script_load_def addEventListener_def initial_page_def)
  with k other_key_does_nothing [OF k, of remove_clicked "script_load (initial_page four_buttons)"]
  show ?thesis by simp
qed

text \<open>
  C4, as the code has it. For every finite sequence of keydown events handled one at a
  time on a page with the handler registered, the activations after the sequence are
  those before it followed by what each event produces individually, in order of arrival,
  each on the document its predecessors left. In particular two presses of recognised
  keys, each with its target present and an HTML element when the key is handled, add
  exactly two activations, in the order of the presses, each on the element carrying the
  identifier of its key; nothing is dropped, merged or deferred.
\<close>

theorem activations_in_order_of_arrival:
  "(listeners p = [(''keydown'', ClickButtonFunction)]
      \<and> (\<forall>e \<in> set es. ev_type e = ''keydown'')
      \<longrightarrow> activations (run b es p) = activations p @ activations_in_order b es (document p))
   \<and> (listeners p = [(''keydown'', ClickButtonFunction)]
      \<and> ev_type e1 = ''keydown'' \<and> ev_type e2 = ''keydown''
      \<and> (key e1, i1) \<in> arrow_bindings \<and> (key e2, i2) \<in> arrow_bindings
      \<and> fst (getElementById i1 p) = Some el1 \<and> kind el1 = HTMLElement
      \<and> fst (getElementById i2 (dispatchEvent b e1 p)) = Some el2 \<and> kind el2 = HTMLElement
      \<longrightarrow> activations (run b [e1, e2] p) = activations p @ [el1, el2]
        \<and> activations_in_order b [e1, e2] (document p) = [el1, el2]
        \<and> elem_id el1 = i1 \<and> elem_id el2 = i2)"
proof (intro conjI impI)
  assume "listeners p = [(''keydown'', ClickButtonFunction)]
      \<and> (\<forall>e \<in> set es. ev_type e = ''keydown'')"
  then show "activations (run b es p) = activations p @ activations_in_order b es (document p)"
    by (intro activations_run) simp_all
next
  assume h: "listeners p = [(''keydown'', ClickButtonFunction)]
      \<and> ev_type e1 = ''keydown'' \<and> ev_type e2 = ''keydown''
      \<and> (key e1, i1) \<in> arrow_bindings \<and> (key e2, i2) \<in> arrow_bindings
      \<and> fst (getElementById i1 p) = Some el1 \<and> kind el1 = HTMLElement
      \<and> fst (getElementById i2 (dispatchEvent b e1 p)) = Some el2 \<and> kind el2 = HTMLElement"
  let ?p1 = "dispatchEvent b e1 p"
  from h have l: "listeners p = [(''keydown'', ClickButtonFunction)]"
    and t1: "ev_type e1 = ''keydown''" and t2: "ev_type e2 = ''keydown''"
    and k1: "(key e1, i1) \<in> arrow_bindings" and k2: "(key e2, i2) \<in> arrow_bindings"
    and f1: "fst (getElementById i1 p) = Some el1" and h1: "kind el1 = HTMLElement"
    and f2: "fst (getElementById i2 ?p1) = Some el2" and h2: "kind el2 = HTMLElement"
    by blast+
  have first: "activations ?p1 = activations p @ [el1]"
    and l1: "listeners ?p1 = [(''keydown'', ClickButtonFunction)]"
    by (rule dispatchEvent_present [OF l t1 k1 f1 h1])+
  have "activations (dispatchEvent b e2 ?p1) = activations ?p1 @ [el2]"
    by (rule dispatchEvent_present [OF l1 t2 k2 f2 h2])
  with first show both: "activations (run b [e1, e2] p) = activations p @ [el1, el2]"
    by simp
  from t1 t2 have "\<forall>e \<in> set [e1, e2]. ev_type e = ''keydown''" by simp
  from activations_run [OF l this, of b] both
  show "activations_in_order b [e1, e2] (document p) = [el1, el2]"
    by simp
  from found_id [OF f1] show "elem_id el1 = i1" by simp
  from found_id [OF f2] show "elem_id el2 = i2" by simp
qed

theorem activations_in_order_of_arrival_witness:
  "listeners (script_load (initial_page four_buttons)) = [(''keydown'', ClickButtonFunction)]
   \<and> ev_type (keydown ''ArrowLeft'') = ''keydown'' \<and> ev_type (keydown ''ArrowUp'') = ''keydown''
   \<and> (key (keydown ''ArrowLeft''), ''move-left'') \<in> arrow_bindings
   \<and> (key (keydown ''ArrowUp''), ''move-up'') \<in> arrow_bindings
   \<and> fst (getElementById ''move-left'' (script_load (initial_page four_buttons)))
        = Some (button ''move-left'' 1)
   \<and> kind (button ''move-left'' 1) = HTMLElement
   \<and> fst (getElementById ''move-up''
        (dispatchEvent remove_clicked (keydown ''ArrowLeft'')
           (script_load (initial_page four_buttons)))) = Some (button ''move-up'' 0)
   \<and> kind (button ''move-up'' 0) = HTMLElement
   \<and> activations (run remove_clicked [keydown ''ArrowLeft'', keydown ''ArrowUp'']
        (script_load (initial_page four_buttons)))
        = [button ''move-left'' 1, button ''move-up'' 0]
   \<and> activations_in_order remove_clicked [keydown ''ArrowLeft'', keydown ''ArrowUp'']
        four_buttons = [button ''move-left'' 1, button ''move-up'' 0]"
proof -
  let ?p = "script_load (initial_page four_buttons)"
  have l: "listeners ?p = [(''keydown'', ClickButtonFunction)]"
    by (simp add: sample_defs)
  have t: "ev_type (keydown ''ArrowLeft'') = ''keydown''"
    "ev_type (keydown ''ArrowUp'') = ''keydown''"
    by (simp_all add: keydown_def)
  have k: "(key (keydown ''ArrowLeft''), ''move-left'') \<in> arrow_bindings"
    "(key (keydown ''ArrowUp''), ''move-up'') \<in> arrow_bindings"
    by (simp_all add: keydown_def)
  have f1: "fst (getElementById ''move-left'' ?p) = Some (button ''move-left'' 1)"
    by (simp add: getElementById_def sample_defs)
  have f2: "fst (getElementById ''move-up''
        (dispatchEvent remove_clicked (keydown ''ArrowLeft'') ?p)) = Some (button ''move-up'' 0)"
    by (simp add: dispatchEvent_def handler_defs sample_defs)
  have h: "kind (button ''move-left'' 1) = HTMLElement" "kind (button ''move-up'' 0) = HTMLElement"
    by (simp_all add: button_def)
  have a: "activations ?p = []" "document ?p = four_buttons"
    by (simp_all add: activations_def sample_defs)
  from activations_in_order_of_arrival [where b = remove_clicked
      and es = "[keydown ''ArrowLeft'', keydown ''ArrowUp'']" and p = ?p
      and ?e1.0 = "keydown ''ArrowLeft''" and ?e2.0 = "keydown ''ArrowUp''"
      and ?i1.0 = "''move-left''" and ?i2.0 = "''move-up''"
      and ?el1.0 = "button ''move-left'' 1" and ?el2.0 = "button ''move-up'' 0"]
    l t k f1 f2 h a
  show ?thesis by simp
qed

theorem activations_in_order_of_arrival_counterexample:
  "key (keydown ''ArrowLeft'') = ''ArrowLeft'' \<and> key (keydown ''ArrowUp'') = ''ArrowUp''
   \<and> activations (run no_effect [keydown ''ArrowLeft'', keydown ''ArrowUp'']
        (script_load (initial_page []))) = []
   \<and> activations (run wipe_document [keydown ''ArrowLeft'', keydown ''ArrowUp'']
        (script_load (initial_page four_buttons))) = [button ''move-left'' 1]"
  by (simp add: dispatchEvent_def activations_def handler_defs sample_defs)

text \<open>
  C5. The handler is stateless and independent of history: whatever events were handled
  before, on whatever pages, two calls with the same event on pages with the same document
  complete the same way, leave the same document and perform the same operations. The
  script declares no variable; a call writes neither the registrations nor the reported
  errors.
\<close>

theorem handler_is_history_independent:
  assumes "document (run b h1 p1) = document (run b h2 p2)"
  shows "fst (clickButtonFunction b e (run b h1 p1)) = fst (clickButtonFunction b e (run b h2 p2))
       \<and> document (snd (clickButtonFunction b e (run b h1 p1)))
           = document (snd (clickButtonFunction b e (run b h2 p2)))
       \<and> (\<exists>ops. trace (snd (clickButtonFunction b e (run b h1 p1))) = trace (run b h1 p1) @ ops
                \<and> trace (snd (clickButtonFunction b e (run b h2 p2))) = trace (run b h2 p2) @ ops)
       \<and> listeners (snd (clickButtonFunction b e (run b h1 p1))) = listeners (run b h1 p1)
       \<and> reported (snd (clickButtonFunction b e (run b h1 p1))) = reported (run b h1 p1)"
proof -
  from cbf_same_view [OF refl assms, where e = e and b = b] obtain r d ops where
    "clickButtonFunction b e (run b h1 p1)
       = (r, (run b h1 p1)\<lparr>document := d, trace := trace (run b h1 p1) @ ops\<rparr>)"
    "clickButtonFunction b e (run b h2 p2)
       = (r, (run b h2 p2)\<lparr>document := d, trace := trace (run b h2 p2) @ ops\<rparr>)"
    by blast
  then show ?thesis by simp
qed

theorem handler_is_history_independent_witness:
  "document (run no_effect [] (script_load (initial_page four_buttons)))
     = document (run no_effect [keydown ''a'', keydown ''ArrowLeft'', keydown ''Enter'']
         (script_load (initial_page four_buttons)))
   \<and> fst (clickButtonFunction no_effect (keydown ''ArrowRight'')
        (run no_effect [keydown ''a'', keydown ''ArrowLeft'', keydown ''Enter'']
           (script_load (initial_page four_buttons)))) = Inr ()
   \<and> document (snd (clickButtonFunction no_effect (keydown ''ArrowRight'')
        (run no_effect [keydown ''a'', keydown ''ArrowLeft'', keydown ''Enter'']
           (script_load (initial_page four_buttons))))) = four_buttons"
proof -
  let ?p = "script_load (initial_page four_buttons)"
  let ?h = "[keydown ''a'', keydown ''ArrowLeft'', keydown ''Enter'']"
  have d: "document (run no_effect [] ?p) = document (run no_effect ?h ?p)"
    by (simp add: dispatchEvent_def handler_defs sample_defs)
  have "fst (clickButtonFunction no_effect (keydown ''ArrowRight'') (run no_effect [] ?p)) = Inr ()"
    and "document (snd (clickButtonFunction no_effect (keydown ''ArrowRight'')
           (run no_effect [] ?p))) = four_buttons"
    by (simp_all add: handler_defs sample_defs)
  with d handler_is_history_independent [OF d, of "keydown ''ArrowRight''"]
  show ?thesis by simp
qed

text \<open>
  C6, as the code has it. For every keydown event the handler reads the document for its
  lookup and writes nothing itself, and a normal return carries no value (the unit value
  of the model). Its only observable effects are the activation of the target element,
  after which the document is what the behaviour attached to that element made of it, and,
  for a recognised key whose target is absent or is not an HTML element, the
  \<^verbatim>\<open>TypeError\<close> it throws. Apart from the log the page is otherwise as before.
\<close>

theorem handler_writes_nothing_itself:
  "(\<exists>ops. clickButtonFunction b e p = (Inr (), p\<lparr>trace := trace p @ ops\<rparr>)
          \<and> clicks_of ops = [] \<and> lookups_of ops = [])
   \<or> (\<exists>i ops. (key e, i) \<in> arrow_bindings \<and> cannot_click (fst (getElementById i p))
             \<and> clickButtonFunction b e p = (Inl TypeError, p\<lparr>trace := trace p @ ops\<rparr>)
             \<and> clicks_of ops = [])
   \<or> (\<exists>i el ops. (key e, i) \<in> arrow_bindings \<and> fst (getElementById i p) = Some el
             \<and> kind el = HTMLElement
             \<and> clickButtonFunction b e p
                  = (Inr (), p\<lparr>document := b el (document p), trace := trace p @ ops\<rparr>)
             \<and> clicks_of ops = [el])"
proof (cases rule: cbf_cases [where e = e and p = p])
  case other
  from cbf_other' [OF other, of b p] show ?thesis
    by (intro disjI1
        exI [of _ "[KeyCompared ''ArrowLeft'', KeyCompared ''ArrowRight'',
                    KeyCompared ''ArrowUp'', KeyCompared ''ArrowDown'']"]) simp
next
  case (throws i)
  from cbf_throws [OF throws, of b] obtain ops where
    "clickButtonFunction b e p = (Inl TypeError, p\<lparr>trace := trace p @ ops\<rparr>)"
    and "clicks_of ops = []"
    by blast
  with throws have "\<exists>i ops. (key e, i) \<in> arrow_bindings
             \<and> cannot_click (fst (getElementById i p))
             \<and> clickButtonFunction b e p = (Inl TypeError, p\<lparr>trace := trace p @ ops\<rparr>)
             \<and> clicks_of ops = []"
    by blast
  then show ?thesis by (intro disjI2 disjI1)
next
  case (present i el)
  from cbf_present [OF present, of b] obtain ops where
    "clickButtonFunction b e p
       = (Inr (), p\<lparr>document := b el (document p), trace := trace p @ ops\<rparr>)"
    and "clicks_of ops = [el]"
    by blast
  with present have "\<exists>i el ops. (key e, i) \<in> arrow_bindings
             \<and> fst (getElementById i p) = Some el \<and> kind el = HTMLElement
             \<and> clickButtonFunction b e p
                  = (Inr (), p\<lparr>document := b el (document p), trace := trace p @ ops\<rparr>)
             \<and> clicks_of ops = [el]"
    by blast
  then show ?thesis by (intro disjI2)
qed

theorem handler_writes_nothing_itself_witness:
  "clickButtonFunction remove_clicked (keydown ''ArrowDown'')
      (script_load (initial_page four_buttons))
   = (Inr (), \<lparr>document = [button ''move-up'' 0, button ''move-left'' 1,
                             button ''move-right'' 2],
               listeners = [(''keydown'', ClickButtonFunction)],
               trace = [KeyCompared ''ArrowLeft'', KeyCompared ''ArrowRight'',
                        KeyCompared ''ArrowUp'', KeyCompared ''ArrowDown'',
                        Lookup ''move-down'', Click (button ''move-down'' 3)],
               reported = []\<rparr>)"
  using handler_writes_nothing_itself [of remove_clicked "keydown ''ArrowDown''"
      "script_load (initial_page four_buttons)"]
  by (simp add: handler_defs sample_defs)

theorem handler_writes_nothing_itself_counterexample:
  "key (keydown ''ArrowUp'') = ''ArrowUp''
   \<and> clickButtonFunction no_effect (keydown ''ArrowUp'')
        (script_load (initial_page [button ''move-left'' 0]))
     = (Inl TypeError, \<lparr>document = [button ''move-left'' 0],
          listeners = [(''keydown'', ClickButtonFunction)],
          trace = [KeyCompared ''ArrowLeft'', KeyCompared ''ArrowRight'',
                   KeyCompared ''ArrowUp'', Lookup ''move-up''],
          reported = []\<rparr>)
   \<and> activations (dispatchEvent no_effect (keydown ''ArrowUp'')
        (script_load (initial_page [button ''move-left'' 0]))) = []
   \<and> reported (dispatchEvent no_effect (keydown ''ArrowUp'')
        (script_load (initial_page [button ''move-left'' 0]))) = [TypeError]"
  by (simp add: dispatchEvent_def activations_def handler_defs sample_defs)

text \<open>
  C7. Loading the script on a page where the handler is not yet bound to keydown registers
  it exactly once, and nothing unregisters it: after the load the registrations are those
  before it followed by the one binding of \<^verbatim>\<open>clickButtonFunction\<close> to \<^verbatim>\<open>keydown\<close>, every
  dispatch of an event leaves the registrations as they are, and so does every sequence
  of events.
\<close>

theorem registered_once_and_kept:
  assumes "(''keydown'', ClickButtonFunction) \<notin> set (listeners p0)"
  shows "listeners (script_load p0) = listeners p0 @ [(''keydown'', ClickButtonFunction)]
       \<and> count_list (listeners (script_load p0)) (''keydown'', ClickButtonFunction) = 1
       \<and> listeners (dispatchEvent b e (run b es (script_load p0)))
           = listeners (run b es (script_load p0))
       \<and> listeners (run b es (script_load p0)) = listeners (script_load p0)
       \<and> listeners (run b es (script_load (initial_page d)))
           = [(''keydown'', ClickButtonFunction)]"
proof -
  from assms have "listeners (script_load p0)
      = listeners p0 @ [(''keydown'', ClickButtonFunction)]"
    by (simp add: script_load_def addEventListener_def)
  moreover from this assms
  have "count_list (listeners (script_load p0)) (''keydown'', ClickButtonFunction) = 1"
    by simp
  ultimately show ?thesis
    by (simp add: listeners_dispatchEvent listeners_run listeners_script_load)
qed

theorem registered_once_and_kept_witness:
  "(''keydown'', ClickButtonFunction) \<notin> set (listeners (initial_page four_buttons))
   \<and> listeners (script_load (initial_page four_buttons)) = [(''keydown'', ClickButtonFunction)]
   \<and> listeners (run remove_clicked [keydown ''ArrowLeft'', keydown ''ArrowLeft'', keydown ''x'']
        (script_load (initial_page four_buttons))) = [(''keydown'', ClickButtonFunction)]"
proof -
  have n: "(''keydown'', ClickButtonFunction) \<notin> set (listeners (initial_page four_buttons))"
    by (simp add: initial_page_def)
  have "listeners (initial_page four_buttons) = []"
    by (simp add: initial_page_def)
  with n registered_once_and_kept [OF n, of remove_clicked "keydown ''x''"
      "[keydown ''ArrowLeft'', keydown ''ArrowLeft'', keydown ''x'']"]
  show ?thesis by simp
qed

text \<open>
  C8. On every call of the handler at most one of the four branches runs: the four key
  names are pairwise distinct, so the key of an event equals at most one of them, and a
  call performs at most one element lookup and at most one activation.
\<close>

theorem at_most_one_branch_runs:
  "distinct [''ArrowLeft'', ''ArrowRight'', ''ArrowUp'', ''ArrowDown'']
   \<and> length (filter (\<lambda>k. key e = k) [''ArrowLeft'', ''ArrowRight'', ''ArrowUp'', ''ArrowDown''])
       \<le> 1
   \<and> (\<exists>ops. trace (snd (clickButtonFunction b e p)) = trace p @ ops
           \<and> length (lookups_of ops) \<le> 1 \<and> length (clicks_of ops) \<le> 1)"
proof -
  from cbf_bounds [of b e p] obtain r d ops where
    "clickButtonFunction b e p = (r, p\<lparr>document := d, trace := trace p @ ops\<rparr>)"
    and "length (lookups_of ops) \<le> 1" and "length (clicks_of ops) \<le> 1"
    by blast
  then have "\<exists>ops. trace (snd (clickButtonFunction b e p)) = trace p @ ops
           \<and> length (lookups_of ops) \<le> 1 \<and> length (clicks_of ops) \<le> 1"
    by auto
  then show ?thesis by auto
qed

theorem at_most_one_branch_runs_witness:
  "lookups_of (trace (snd (clickButtonFunction remove_clicked (keydown ''ArrowUp'')
      (script_load (initial_page four_buttons))))) = [''move-up'']
   \<and> clicks_of (trace (snd (clickButtonFunction remove_clicked (keydown ''ArrowUp'')
      (script_load (initial_page four_buttons))))) = [button ''move-up'' 0]"
  using at_most_one_branch_runs [of "keydown ''ArrowUp''" remove_clicked
      "script_load (initial_page four_buttons)"]
  by (simp add: handler_defs sample_defs)

text \<open>
  C9. The handler depends on the event through its key only, and on the page through its
  document only: two events with the same key have the same effect on a page, whatever
  their other fields (a press with Ctrl held, an auto-repeated press), and on two pages
  with the same document they complete the same way, leave the same document and perform
  the same operations.
\<close>

theorem only_the_key_and_the_document_matter:
  assumes "key e = key e'"
  shows "clickButtonFunction b e p = clickButtonFunction b e' p
       \<and> clickButtonFunction b (e\<lparr>ctrlKey := True\<rparr>) p = clickButtonFunction b e p
       \<and> clickButtonFunction b (e\<lparr>repeat := True\<rparr>) p = clickButtonFunction b e p
       \<and> (document p = document q \<longrightarrow>
            fst (clickButtonFunction b e p) = fst (clickButtonFunction b e' q)
          \<and> document (snd (clickButtonFunction b e p))
              = document (snd (clickButtonFunction b e' q))
          \<and> (\<exists>ops. trace (snd (clickButtonFunction b e p)) = trace p @ ops
                   \<and> trace (snd (clickButtonFunction b e' q)) = trace q @ ops))"
proof (intro conjI impI)
  show "clickButtonFunction b e p = clickButtonFunction b e' p"
    using cbf_key_only [OF assms, of b] by simp
  show "clickButtonFunction b (e\<lparr>ctrlKey := True\<rparr>) p = clickButtonFunction b e p"
    by (simp add: cbf_key_only [of "e\<lparr>ctrlKey := True\<rparr>" e])
  show "clickButtonFunction b (e\<lparr>repeat := True\<rparr>) p = clickButtonFunction b e p"
    by (simp add: cbf_key_only [of "e\<lparr>repeat := True\<rparr>" e])
next
  assume "document p = document q"
  from cbf_same_view [OF assms this, of b] obtain r d ops where
    "clickButtonFunction b e p = (r, p\<lparr>document := d, trace := trace p @ ops\<rparr>)"
    "clickButtonFunction b e' q = (r, q\<lparr>document := d, trace := trace q @ ops\<rparr>)"
    by blast
  then show "fst (clickButtonFunction b e p) = fst (clickButtonFunction b e' q)"
    and "document (snd (clickButtonFunction b e p))
              = document (snd (clickButtonFunction b e' q))"
    and "\<exists>ops. trace (snd (clickButtonFunction b e p)) = trace p @ ops
                   \<and> trace (snd (clickButtonFunction b e' q)) = trace q @ ops"
    by simp_all
qed

theorem only_the_key_and_the_document_matter_witness:
  "key (keydown ''ArrowLeft'') = key ((keydown ''ArrowLeft'')\<lparr>ctrlKey := True, repeat := True\<rparr>)
   \<and> clickButtonFunction no_effect ((keydown ''ArrowLeft'')\<lparr>ctrlKey := True, repeat := True\<rparr>)
        (script_load (initial_page four_buttons))
     = clickButtonFunction no_effect (keydown ''ArrowLeft'')
        (script_load (initial_page four_buttons))
   \<and> activations (snd (clickButtonFunction no_effect
        ((keydown ''ArrowLeft'')\<lparr>ctrlKey := True, repeat := True\<rparr>)
        (script_load (initial_page four_buttons)))) = [button ''move-left'' 1]"
proof -
  have k: "key (keydown ''ArrowLeft'')
      = key ((keydown ''ArrowLeft'')\<lparr>ctrlKey := True, repeat := True\<rparr>)"
    by (simp add: keydown_def)
  have "activations (snd (clickButtonFunction no_effect (keydown ''ArrowLeft'')
        (script_load (initial_page four_buttons)))) = [button ''move-left'' 1]"
    by (simp add: activations_def handler_defs sample_defs)
  with k only_the_key_and_the_document_matter [OF k, of no_effect
      "script_load (initial_page four_buttons)" "script_load (initial_page four_buttons)"]
  show ?thesis by simp
qed

text \<open>
  C10. The handler is total: it is four statements in sequence, with no loop and no
  recursion, and on every event and every page it completes after at most four
  comparisons of the key, at most one element lookup and at most one activation, that is
  at most six operations on the host.
\<close>

theorem handler_returns_after_bounded_work:
  "\<exists>r d ops. clickButtonFunction b e p = (r, p\<lparr>document := d, trace := trace p @ ops\<rparr>)
     \<and> length (compares_of ops) \<le> 4 \<and> length (lookups_of ops) \<le> 1
     \<and> length (clicks_of ops) \<le> 1 \<and> length ops \<le> 6"
  by (rule cbf_bounds)

theorem handler_returns_after_bounded_work_witness:
  "length (trace (snd (clickButtonFunction no_effect (keydown ''ArrowRight'')
      (script_load (initial_page four_buttons))))) = 6
   \<and> length (trace (snd (clickButtonFunction no_effect (keydown ''ArrowRight'')
      (script_load (initial_page []))))) = 3
   \<and> length (trace (snd (clickButtonFunction no_effect (keydown ''q'')
      (script_load (initial_page []))))) = 4"
  using handler_returns_after_bounded_work [of no_effect "keydown ''ArrowRight''"
      "script_load (initial_page four_buttons)"]
  by (simp add: handler_defs sample_defs)

end
